theory Spec2Isabelle
  imports Complex_Main
begin

section \<open>Python values used by the scanner\<close>

text \<open>
  The development embeds the change-detection and versioning core of
  \<^verbatim>\<open>src/main.py\<close> (class \<^verbatim>\<open>SimpleDriveScanner\<close>).

  Conventions.  A Python \<^verbatim>\<open>str\<close> is a \<^typ>\<open>string\<close>; a character stands for the
  code point of the same number (code points below 256).  A Python \<^verbatim>\<open>int\<close> is an
  \<^typ>\<open>int\<close>; the interpreter's configurable limit on the number of digits of a
  decimal conversion is not modelled.  A raised exception is the left summand of
  the result type.  Console output and \<^verbatim>\<open>time.sleep\<close> do not influence any returned
  value and are left out.
\<close>

datatype exn =
    ValueError
  | KeyError
  | HttpError nat string
  | OtherError string

subsection \<open>\<^verbatim>\<open>int(s)\<close> and \<^verbatim>\<open>str(n)\<close>\<close>

definition decimal_digits :: "(char \<times> nat) list" where
  "decimal_digits =
     [(CHR ''0'', 0), (CHR ''1'', 1), (CHR ''2'', 2), (CHR ''3'', 3), (CHR ''4'', 4),
      (CHR ''5'', 5), (CHR ''6'', 6), (CHR ''7'', 7), (CHR ''8'', 8), (CHR ''9'', 9)]"

definition digit_val :: "char \<Rightarrow> nat option" where
  "digit_val c = map_of decimal_digits c"

text \<open>
  The characters \<^verbatim>\<open>int\<close> strips at both ends: tab, line feed, vertical tab, form
  feed, carriage return, space, and (outside ASCII) next-line and no-break space.
\<close>

definition int_space :: "char \<Rightarrow> bool" where
  "int_space c \<longleftrightarrow>
     c = CHR 0x09 \<or> c = CHR 0x0A \<or> c = CHR 0x0B \<or> c = CHR 0x0C \<or> c = CHR 0x0D \<or>
     c = CHR 0x20 \<or> c = CHR 0x85 \<or> c = CHR 0xA0"

text \<open>
  The digits of a decimal literal, after its first digit: every further digit may be
  preceded by one underscore.
\<close>

fun int_digits :: "nat \<Rightarrow> string \<Rightarrow> nat option" where
  "int_digits acc [] = Some acc"
| "int_digits acc [c] =
     (case digit_val c of None \<Rightarrow> None | Some v \<Rightarrow> Some (acc * 10 + v))"
| "int_digits acc (c # d # cs) =
     (if c = CHR ''_'' then
        (case digit_val d of None \<Rightarrow> None | Some v \<Rightarrow> int_digits (acc * 10 + v) cs)
      else
        (case digit_val c of None \<Rightarrow> None | Some v \<Rightarrow> int_digits (acc * 10 + v) (d # cs)))"

definition int_literal :: "string \<Rightarrow> nat option" where
  "int_literal s =
     (case s of
        [] \<Rightarrow> None
      | c # cs \<Rightarrow> (case digit_val c of None \<Rightarrow> None | Some v \<Rightarrow> int_digits v cs))"

definition strip_int :: "string \<Rightarrow> string" where
  "strip_int s = rev (dropWhile int_space (rev (dropWhile int_space s)))"

definition py_int :: "string \<Rightarrow> exn + int" where
  "py_int s =
     (let t = strip_int s;
          neg = (t \<noteq> [] \<and> hd t = CHR ''-'');
          body = (if t \<noteq> [] \<and> (hd t = CHR ''-'' \<or> hd t = CHR ''+'') then tl t else t)
      in case int_literal body of
           None \<Rightarrow> Inl ValueError
         | Some n \<Rightarrow> Inr (if neg then - int n else int n))"

definition digit_char :: "nat \<Rightarrow> char" where
  "digit_char d = ''0123456789'' ! d"

fun str_nat :: "nat \<Rightarrow> string" where
  "str_nat n = (if n < 10 then [digit_char n] else str_nat (n div 10) @ [digit_char (n mod 10)])"

definition py_str :: "int \<Rightarrow> string" where
  "py_str i = (if i < 0 then CHR ''-'' # str_nat (nat (- i)) else str_nat (nat i))"

subsection \<open>\<^verbatim>\<open>s.split(sep)\<close> for a one-character separator\<close>

fun split_on :: "char \<Rightarrow> string \<Rightarrow> string list" where
  "split_on sep [] = [[]]"
| "split_on sep (c # cs) =
     (if c = sep then [] # split_on sep cs
      else (case split_on sep cs of
              [] \<Rightarrow> [[c]]
            | w # ws \<Rightarrow> (c # w) # ws))"

section \<open>Version Manager: \<^verbatim>\<open>increment_version\<close>\<close>

text \<open>
  \<^verbatim>\<open>major, minor, patch = map(int, current_version.split('.'))\<close>: every failure of
  the conversion and of the unpacking (too few or too many values) is a
  \<^verbatim>\<open>ValueError\<close>.
\<close>

fun map_int :: "string list \<Rightarrow> exn + int list" where
  "map_int [] = Inr []"
| "map_int (s # ss) =
     (case py_int s of
        Inl e \<Rightarrow> Inl e
      | Inr n \<Rightarrow> (case map_int ss of Inl e \<Rightarrow> Inl e | Inr ns \<Rightarrow> Inr (n # ns)))"

definition unpack3 :: "int list \<Rightarrow> exn + int \<times> int \<times> int" where
  "unpack3 ns = (case ns of [a, b, c] \<Rightarrow> Inr (a, b, c) | _ \<Rightarrow> Inl ValueError)"

definition parse_version :: "string \<Rightarrow> exn + int \<times> int \<times> int" where
  "parse_version v =
     (case map_int (split_on (CHR ''.'') v) of
        Inl e \<Rightarrow> Inl e
      | Inr ns \<Rightarrow> unpack3 ns)"

text \<open>The arithmetic between the parse and the formatted return value.\<close>

definition bump :: "int \<times> int \<times> int \<Rightarrow> int \<times> int \<times> int" where
  "bump v =
     (case v of (major, minor, patch) \<Rightarrow>
        let patch = patch + 1 in
        if patch > 9 then
          let patch = 0; minor = minor + 1 in
          if minor > 9 then
            let minor = 0; major = major + 1 in (major, minor, patch)
          else (major, minor, patch)
        else (major, minor, patch))"

definition format_version :: "int \<times> int \<times> int \<Rightarrow> string" where
  "format_version v =
     (case v of (major, minor, patch) \<Rightarrow>
        py_str major @ ''.'' @ py_str minor @ ''.'' @ py_str patch)"

definition increment_version :: "string \<Rightarrow> bool \<Rightarrow> exn + string" where
  "increment_version current_version has_changes =
     (if \<not> has_changes then Inr current_version
      else
        (case (case parse_version current_version of
                 Inl e \<Rightarrow> Inl e
               | Inr v \<Rightarrow> Inr (format_version (bump v))) of
           Inl ValueError \<Rightarrow> Inr ''1.0.1''
         | Inl e \<Rightarrow> Inl e
         | Inr s \<Rightarrow> Inr s))"

text \<open>A version string is well formed when the parse of the source succeeds on it.\<close>

definition well_formed :: "string \<Rightarrow> bool" where
  "well_formed v = (case parse_version v of Inl _ \<Rightarrow> False | Inr _ \<Rightarrow> True)"

text \<open>All three components of a version lie in the digit range.\<close>

definition single_digits :: "int \<times> int \<times> int \<Rightarrow> bool" where
  "single_digits v =
     (case v of (major, minor, patch) \<Rightarrow>
        0 \<le> major \<and> major \<le> 9 \<and> 0 \<le> minor \<and> minor \<le> 9 \<and> 0 \<le> patch \<and> patch \<le> 9)"

text \<open>The value of a digit string, read from the left.\<close>

definition dec_step :: "nat \<Rightarrow> char \<Rightarrow> nat" where
  "dec_step a c = a * 10 + the (digit_val c)"

section \<open>Diff Engine and version history: data\<close>

record added_entry =
  ae_id :: string
  ae_name :: string
  ae_size :: int

record modified_entry =
  me_id :: string
  me_name :: string
  old_name :: string
  old_modified :: string
  new_modified :: string
  old_size :: int
  new_size :: int
  change_type :: string

record change_set =
  added_files :: "added_entry list"
  deleted_files :: "added_entry list"
  modified_files :: "modified_entry list"
  total_changes :: int
  summary :: string

record entry_stats =
  es_totalFiles :: int
  es_totalFolders :: int
  es_totalSizeMB :: rat

text \<open>
  An entry of \<^verbatim>\<open>version_history\<close>, as a JSON object: a key that is absent is
  \<open>None\<close>.  \<^verbatim>\<open>current_version\<close> and \<^verbatim>\<open>n_version\<close> are the legacy names of
  the version key.
\<close>

record history_entry =
  version :: "string option"
  current_version :: "string option"
  n_version :: "string option"
  scan_date :: "string option"
  scanner_version :: "string option"
  changes :: "change_set option"
  stats :: "entry_stats option"

section \<open>Version Manager: \<^verbatim>\<open>save_version_history\<close>\<close>

text \<open>The body of the loop that standardizes the version key of one entry.\<close>

definition standardize :: "history_entry \<Rightarrow> history_entry" where
  "standardize entry =
     (case current_version entry of
        Some v \<Rightarrow> entry\<lparr>version := Some v, current_version := None\<rparr>
      | None \<Rightarrow>
          (case n_version entry of
             Some v \<Rightarrow> entry\<lparr>version := Some v, n_version := None\<rparr>
           | None \<Rightarrow> entry))"

text \<open>\<^verbatim>\<open>new_entry.get("changes", {}).get("total_changes", 0)\<close>\<close>

definition entry_total_changes :: "history_entry \<Rightarrow> int" where
  "entry_total_changes e = (case changes e of None \<Rightarrow> 0 | Some c \<Rightarrow> total_changes c)"

text \<open>
  The first argument is what \<^verbatim>\<open>load_version_history\<close> returned.  Reading
  \<^verbatim>\<open>new_entry["scan_date"]\<close> raises \<^verbatim>\<open>KeyError\<close> when the key is absent; the
  handler of the source re-raises.
\<close>

definition save_version_history ::
  "history_entry list \<Rightarrow> history_entry \<Rightarrow> exn + history_entry list" where
  "save_version_history loaded new_entry =
     (let history = map standardize loaded in
      case
        (if entry_total_changes new_entry = 0 \<and> history \<noteq> [] then
           (case scan_date new_entry of
              None \<Rightarrow> Inl KeyError
            | Some d \<Rightarrow>
                let head = (hd history)\<lparr>scan_date := Some d\<rparr>;
                    head = (case stats new_entry of
                              None \<Rightarrow> head
                            | Some s \<Rightarrow> head\<lparr>stats := Some s\<rparr>)
                in Inr (head # tl history))
         else Inr (new_entry # history))
      of
        Inl e \<Rightarrow> Inl e
      | Inr history \<Rightarrow> Inr (if length history > 50 then take 50 history else history))"

text \<open>The head of a history after a scan without changes, as the source rewrites it.\<close>

definition refresh_top :: "history_entry \<Rightarrow> history_entry \<Rightarrow> history_entry" where
  "refresh_top new_entry head =
     head\<lparr>scan_date := scan_date new_entry,
          stats := (case stats new_entry of None \<Rightarrow> stats head | Some s \<Rightarrow> Some s)\<rparr>"

section \<open>Scanned tree\<close>

record file_size =
  bytes :: int
  kb :: rat
  mb :: rat
  gb :: rat

record size_distribution =
  small :: int
  medium :: int
  large :: int
  huge :: int

record node_head =
  name :: string
  node_id :: string
  driveLink :: string

record file_node = node_head +
  mimeType :: string
  category :: string
  fsize :: file_size
  modifiedTime :: string
  createdTime :: string

record folder_info = node_head +
  description :: string

record aggregates =
  fileCount :: int
  folderCount :: int
  totalSizeMB :: rat
  lastUpdated :: string
  fileTypes :: "(string \<times> int) list"
  sizeDistribution :: size_distribution

datatype node =
    File file_node
  | Folder folder_info aggregates "node list"

record folder_tree = aggregates +
  children :: "node list"

section \<open>Fingerprint Extractor\<close>

text \<open>
  A Python \<^verbatim>\<open>dict\<close> is an association list in insertion order.  Assigning to a key
  that is present replaces its value in place; a new key goes to the end.
\<close>

fun dict_set :: "'k \<Rightarrow> 'v \<Rightarrow> ('k \<times> 'v) list \<Rightarrow> ('k \<times> 'v) list" where
  "dict_set k v [] = [(k, v)]"
| "dict_set k v (p # ps) = (if fst p = k then (k, v) # ps else p # dict_set k v ps)"

definition dict_get :: "('k \<times> 'v) list \<Rightarrow> 'k \<Rightarrow> 'v \<Rightarrow> 'v" where
  "dict_get d k dflt = (case map_of d k of None \<Rightarrow> dflt | Some v \<Rightarrow> v)"

record signature =
  sig_signature :: string
  sig_name :: string
  sig_size :: int
  sig_modified :: string

text \<open>
  The two library functions below \<^verbatim>\<open>generate_file_signature\<close>: the hexadecimal MD5
  digest of a string, and the text that an f-string gives for the size dictionary.
\<close>

record library =
  md5_hexdigest :: "string \<Rightarrow> string"
  str_of_size :: "file_size \<Rightarrow> string"

definition generate_file_signature :: "library \<Rightarrow> file_node \<Rightarrow> string" where
  "generate_file_signature lib file_data =
     md5_hexdigest lib
       (node_id file_data @ ''-'' @ name file_data @ ''-'' @
        str_of_size lib (fsize file_data) @ ''-'' @ modifiedTime file_data)"

text \<open>
  The loop of \<^verbatim>\<open>extract_file_signatures\<close> over the children of a folder; for a
  folder child the function is entered again with the same dictionary.
\<close>

fun extract_children ::
  "library \<Rightarrow> node list \<Rightarrow> (string \<times> signature) list \<Rightarrow> (string \<times> signature) list" where
  "extract_children lib [] signatures = signatures"
| "extract_children lib (File item # items) signatures =
     extract_children lib items
       (dict_set (node_id item)
          \<lparr>sig_signature = generate_file_signature lib item,
           sig_name = name item,
           sig_size = bytes (fsize item),
           sig_modified = modifiedTime item\<rparr>
          signatures)"
| "extract_children lib (Folder info agg sub # items) signatures =
     extract_children lib items (extract_children lib sub signatures)"

definition extract_file_signatures ::
  "library \<Rightarrow> folder_tree \<Rightarrow> (string \<times> signature) list" where
  "extract_file_signatures lib folder_data = extract_children lib (children folder_data) []"

section \<open>Diff Engine: \<^verbatim>\<open>detect_changes\<close>\<close>

text \<open>
  The part of the previous scan that the comparison reads, and
  \<^verbatim>\<open>previous_data.get('file_signatures', {})\<close>.
\<close>

record previous_scan =
  prev_version :: "string option"
  file_signatures :: "(string \<times> signature) list option"

fun join :: "string \<Rightarrow> string list \<Rightarrow> string" where
  "join sep [] = []"
| "join sep [x] = x"
| "join sep (x # y # ys) = x @ sep @ join sep (y # ys)"

text \<open>The bodies of the three loops: what one iteration appends.\<close>

definition added_of ::
  "(string \<times> signature) list \<Rightarrow> string \<times> signature \<Rightarrow> added_entry list" where
  "added_of previous_sigs kv =
     (case kv of (file_id, file_info) \<Rightarrow>
        if map_of previous_sigs file_id = None
        then [\<lparr>ae_id = file_id, ae_name = sig_name file_info, ae_size = sig_size file_info\<rparr>]
        else [])"

definition deleted_of ::
  "(string \<times> signature) list \<Rightarrow> string \<times> signature \<Rightarrow> added_entry list" where
  "deleted_of current_sigs kv =
     (case kv of (file_id, file_info) \<Rightarrow>
        if map_of current_sigs file_id = None
        then [\<lparr>ae_id = file_id, ae_name = sig_name file_info, ae_size = sig_size file_info\<rparr>]
        else [])"

definition modified_of ::
  "(string \<times> signature) list \<Rightarrow> string \<times> signature \<Rightarrow> modified_entry list" where
  "modified_of previous_sigs kv =
     (case kv of (file_id, current_info) \<Rightarrow>
        (case map_of previous_sigs file_id of
           None \<Rightarrow> []
         | Some previous_info \<Rightarrow>
             let name_changed = (sig_name current_info \<noteq> sig_name previous_info);
                 size_changed = (sig_size current_info \<noteq> sig_size previous_info);
                 time_changed = (sig_modified current_info \<noteq> sig_modified previous_info)
             in if name_changed \<or> size_changed \<or> time_changed then
                  [\<lparr>me_id = file_id,
                    me_name = sig_name current_info,
                    old_name = sig_name previous_info,
                    old_modified = sig_modified previous_info,
                    new_modified = sig_modified current_info,
                    old_size = sig_size previous_info,
                    new_size = sig_size current_info,
                    change_type =
                      join '', ''
                        ((if name_changed then [''renamed''] else []) @
                         (if size_changed then [''resized''] else []) @
                         (if time_changed then [''modified''] else []))\<rparr>]
                else []))"

definition previous_signatures :: "previous_scan \<Rightarrow> (string \<times> signature) list" where
  "previous_signatures previous_data =
     (case file_signatures previous_data of None \<Rightarrow> [] | Some s \<Rightarrow> s)"

definition detect_changes :: "library \<Rightarrow> folder_tree \<Rightarrow> previous_scan \<Rightarrow> change_set" where
  "detect_changes lib current_data previous_data =
     (let current_sigs = extract_file_signatures lib current_data;
          previous_sigs = previous_signatures previous_data;
          added = concat (map (added_of previous_sigs) current_sigs);
          deleted = concat (map (deleted_of current_sigs) previous_sigs);
          changed = concat (map (modified_of previous_sigs) current_sigs);
          summary_parts =
            (if added \<noteq> [] then [py_str (int (length added)) @ '' files added''] else []) @
            (if deleted \<noteq> [] then [py_str (int (length deleted)) @ '' files deleted''] else []) @
            (if changed \<noteq> [] then [py_str (int (length changed)) @ '' files modified''] else [])
      in \<lparr>added_files = added,
          deleted_files = deleted,
          modified_files = changed,
          total_changes = int (length added) + int (length deleted) + int (length changed),
          summary = (if summary_parts \<noteq> [] then join '', '' summary_parts
                     else ''No changes detected'')\<rparr>)"

text \<open>
  The ids that the comparison leaves out of every list: present on both sides with the
  same name, size and modification time.
\<close>

definition unchanged_of ::
  "(string \<times> signature) list \<Rightarrow> string \<times> signature \<Rightarrow> string list" where
  "unchanged_of previous_sigs kv =
     (case kv of (file_id, current_info) \<Rightarrow>
        (case map_of previous_sigs file_id of
           None \<Rightarrow> []
         | Some previous_info \<Rightarrow>
             if sig_name current_info = sig_name previous_info \<and>
                sig_size current_info = sig_size previous_info \<and>
                sig_modified current_info = sig_modified previous_info
             then [file_id] else []))"

definition unchanged_ids ::
  "(string \<times> signature) list \<Rightarrow> (string \<times> signature) list \<Rightarrow> string list" where
  "unchanged_ids current_sigs previous_sigs = concat (map (unchanged_of previous_sigs) current_sigs)"

text \<open>A dictionary has every key once.\<close>

definition is_dict :: "('k \<times> 'v) list \<Rightarrow> bool" where
  "is_dict d = distinct (map fst d)"

section \<open>Tree Scanner: configuration, remote calls and counters\<close>

record config =
  maxRetries :: int
  retryDelay :: int
  parentFolderId :: string

text \<open>The \<^verbatim>\<open>size\<close> key of a listed entry: absent, \<^verbatim>\<open>null\<close>, a string or a number.\<close>

datatype size_field = SizeAbsent | SizeNull | SizeStr string | SizeNum int

text \<open>
  A listed entry.  The keys \<^verbatim>\<open>id\<close>, \<^verbatim>\<open>name\<close> and \<^verbatim>\<open>mimeType\<close> are read with
  \<^verbatim>\<open>item[...]\<close> and are taken to be present; for the other keys \<open>None\<close> is an absent
  key.
\<close>

record remote_item =
  item_id :: string
  item_name :: string
  item_mimeType :: string
  item_size :: size_field
  item_modifiedTime :: "string option"
  item_createdTime :: "string option"
  item_webViewLink :: "string option"

record list_response =
  files :: "remote_item list option"
  nextPageToken :: "string option"

record meta_response =
  meta_description :: "string option"

text \<open>What \<^verbatim>\<open>api_call(...).execute()\<close> does: it returns a response or raises.\<close>

datatype 'r outcome = Returned 'r | Raised exn

text \<open>
  The remote service.  The first argument of a call is the number of attempts the run
  has made before it, so that the service may answer differently over time.
\<close>

record remote =
  list_call :: "nat \<Rightarrow> string \<Rightarrow> string option \<Rightarrow> list_response outcome"
  get_call :: "nat \<Rightarrow> string \<Rightarrow> meta_response outcome"

text \<open>The counters \<^verbatim>\<open>self.stats\<close> that the scan updates.\<close>

record scan_stats =
  totalFiles :: int
  totalFolders :: int
  apiCallsCount :: nat
  errors :: "string list"

definition exn_text :: "exn \<Rightarrow> string" where
  "exn_text e =
     (case e of
        HttpError status msg \<Rightarrow> msg
      | OtherError msg \<Rightarrow> msg
      | ValueError \<Rightarrow> ''ValueError''
      | KeyError \<Rightarrow> ''KeyError'')"

subsection \<open>\<^verbatim>\<open>make_api_call_with_retry\<close>\<close>

text \<open>
  The loop over \<^verbatim>\<open>range(maxRetries)\<close>, with the attempts still to make.  When the
  loop runs out, the function ends without a \<^verbatim>\<open>return\<close>: the caller gets \<^verbatim>\<open>None\<close>.
\<close>

fun retry_loop ::
  "config \<Rightarrow> (nat \<Rightarrow> 'r outcome) \<Rightarrow> int list \<Rightarrow> scan_stats \<Rightarrow> (exn + 'r option) \<times> scan_stats" where
  "retry_loop cfg api_call [] st = (Inr None, st)"
| "retry_loop cfg api_call (attempt # rest) st =
     (let st = st\<lparr>apiCallsCount := apiCallsCount st + 1\<rparr> in
      case api_call (apiCallsCount st - 1) of
        Returned r \<Rightarrow> (Inr (Some r), st)
      | Raised (HttpError status msg) \<Rightarrow>
          if status = 429 then retry_loop cfg api_call rest st
          else if status = 403 then
            (Inr None, st\<lparr>errors := errors st @ [''Access forbidden: '' @ msg]\<rparr>)
          else if attempt = maxRetries cfg - 1 then
            (Inl (HttpError status msg), st\<lparr>errors := errors st @ [''API Error: '' @ msg]\<rparr>)
          else retry_loop cfg api_call rest st
      | Raised e \<Rightarrow>
          if attempt = maxRetries cfg - 1 then
            (Inl e, st\<lparr>errors := errors st @ [''Unexpected error: '' @ exn_text e]\<rparr>)
          else retry_loop cfg api_call rest st)"

definition make_api_call_with_retry ::
  "config \<Rightarrow> (nat \<Rightarrow> 'r outcome) \<Rightarrow> scan_stats \<Rightarrow> (exn + 'r option) \<times> scan_stats" where
  "make_api_call_with_retry cfg api_call st = retry_loop cfg api_call [0..maxRetries cfg - 1] st"

subsection \<open>Helpers of the scan\<close>

definition FILE_CATEGORIES :: "(string \<times> string list) list" where
  "FILE_CATEGORIES =
     [(''documents'',
         [''application/pdf'', ''application/vnd.google-apps.document'', ''application/msword'',
          ''application/vnd.openxmlformats-officedocument.wordprocessingml.document'',
          ''text/plain'']),
      (''spreadsheets'',
         [''application/vnd.google-apps.spreadsheet'', ''application/vnd.ms-excel'',
          ''application/vnd.openxmlformats-officedocument.spreadsheetml.sheet'']),
      (''presentations'',
         [''application/vnd.google-apps.presentation'', ''application/vnd.ms-powerpoint'',
          ''application/vnd.openxmlformats-officedocument.presentationml.presentation'']),
      (''images'', [''image/jpeg'', ''image/png'', ''image/gif'', ''image/bmp'', ''image/svg+xml'']),
      (''videos'', [''video/mp4'', ''video/avi'', ''video/mkv'', ''video/mov'', ''video/wmv'']),
      (''audio'', [''audio/mp3'', ''audio/wav'', ''audio/flac'', ''audio/aac'']),
      (''archives'',
         [''application/zip'', ''application/x-rar-compressed'',
          ''application/x-7z-compressed''])]"

fun category_in :: "(string \<times> string list) list \<Rightarrow> string \<Rightarrow> string" where
  "category_in [] mime_type = ''others''"
| "category_in ((cat, mime_types) # rest) mime_type =
     (if mime_type \<in> set mime_types then cat else category_in rest mime_type)"

definition categorize_file :: "string \<Rightarrow> string" where
  "categorize_file mime_type =
     (if mime_type = [] then ''others'' else category_in FILE_CATEGORIES mime_type)"

text \<open>
  Floating-point numbers are exact rationals here.  \<^verbatim>\<open>round(x, n)\<close> rounds to \<open>n\<close>
  decimals, a tie going to the even neighbour.
\<close>

definition round_half_even :: "rat \<Rightarrow> int" where
  "round_half_even x =
     (let f = \<lfloor>x\<rfloor>; d = x - of_int f
      in if d < 1 / 2 then f else if 1 / 2 < d then f + 1 else if even f then f else f + 1)"

definition py_round :: "rat \<Rightarrow> nat \<Rightarrow> rat" where
  "py_round x ndigits = of_int (round_half_even (x * 10 ^ ndigits)) / 10 ^ ndigits"

definition format_file_size :: "int option \<Rightarrow> file_size" where
  "format_file_size size_bytes =
     (let size_bytes = (case size_bytes of None \<Rightarrow> 0 | Some b \<Rightarrow> b)
      in \<lparr>bytes = size_bytes,
          kb = py_round (of_int size_bytes / 1024) 2,
          mb = py_round (of_int size_bytes / (1024 * 1024)) 2,
          gb = py_round (of_int size_bytes / (1024 * 1024 * 1024)) 4\<rparr>)"

text \<open>\<^verbatim>\<open>s.replace(old, new)\<close> for a non-empty \<open>old\<close>; the counter skips a matched occurrence.\<close>

fun replace_from :: "nat \<Rightarrow> string \<Rightarrow> string \<Rightarrow> string \<Rightarrow> string" where
  "replace_from k old new [] = []"
| "replace_from (Suc k) old new (c # cs) = replace_from k old new cs"
| "replace_from 0 old new (c # cs) =
     (if take (length old) (c # cs) = old
      then new @ replace_from (length old - 1) old new cs
      else c # replace_from 0 old new cs)"

definition py_replace :: "string \<Rightarrow> string \<Rightarrow> string \<Rightarrow> string" where
  "py_replace old new s = replace_from 0 old new s"

definition safe_datetime_format :: "string option \<Rightarrow> string" where
  "safe_datetime_format dt =
     (case dt of
        None \<Rightarrow> ''N/A''
      | Some t \<Rightarrow>
          if t = [] then ''N/A''
          else py_replace ''.000'' '''' (py_replace ''Z'' '''' (py_replace ''T'' '' '' t)))"

text \<open>Comparison of strings by code points, and \<^verbatim>\<open>max\<close> of two strings.\<close>

fun str_less :: "string \<Rightarrow> string \<Rightarrow> bool" where
  "str_less [] [] = False"
| "str_less [] (y # ys) = True"
| "str_less (x # xs) [] = False"
| "str_less (x # xs) (y # ys) =
     ((of_char x :: nat) < of_char y \<or> (x = y \<and> str_less xs ys))"

definition str_max :: "string \<Rightarrow> string \<Rightarrow> string" where
  "str_max a b = (if str_less a b then b else a)"

text \<open>\<^verbatim>\<open>int(item.get('size', 0) or 0)\<close>\<close>

definition size_bytes_of :: "size_field \<Rightarrow> exn + int" where
  "size_bytes_of s =
     (case s of
        SizeAbsent \<Rightarrow> Inr 0
      | SizeNull \<Rightarrow> Inr 0
      | SizeStr t \<Rightarrow> if t = [] then Inr 0 else py_int t
      | SizeNum n \<Rightarrow> Inr n)"

subsection \<open>\<^verbatim>\<open>get_folder_description\<close>\<close>

definition get_folder_description ::
  "config \<Rightarrow> remote \<Rightarrow> string \<Rightarrow> scan_stats \<Rightarrow> string \<times> scan_stats" where
  "get_folder_description cfg rem folder_id st =
     (case make_api_call_with_retry cfg (\<lambda>i. get_call rem i folder_id) st of
        (Inl e, st) \<Rightarrow> ('''', st)
      | (Inr None, st) \<Rightarrow> ('''', st)
      | (Inr (Some meta), st) \<Rightarrow>
          (case meta_description meta of None \<Rightarrow> ('''', st) | Some d \<Rightarrow> (d, st)))"

subsection \<open>\<^verbatim>\<open>get_folder_tree\<close>\<close>

record folder_stats =
  fs_totalSizeMB :: rat
  fs_fileCount :: int
  fs_folderCount :: int
  lastModified :: "string option"
  fs_fileTypes :: "(string \<times> int) list"
  fs_sizeDistribution :: size_distribution

definition initial_folder_stats :: folder_stats where
  "initial_folder_stats =
     \<lparr>fs_totalSizeMB = 0, fs_fileCount = 0, fs_folderCount = 0, lastModified = None,
      fs_fileTypes = [],
      fs_sizeDistribution = \<lparr>small = 0, medium = 0, large = 0, huge = 0\<rparr>\<rparr>"

definition add_bucket :: "rat \<Rightarrow> size_distribution \<Rightarrow> size_distribution" where
  "add_bucket size_mb d =
     (if size_mb < 1 then d\<lparr>small := small d + 1\<rparr>
      else if size_mb < 10 then d\<lparr>medium := medium d + 1\<rparr>
      else if size_mb < 100 then d\<lparr>large := large d + 1\<rparr>
      else d\<lparr>huge := huge d + 1\<rparr>)"

definition add_distribution :: "size_distribution \<Rightarrow> size_distribution \<Rightarrow> size_distribution" where
  "add_distribution sub d =
     \<lparr>small = small d + small sub, medium = medium d + medium sub,
      large = large d + large sub, huge = huge d + huge sub\<rparr>"

text \<open>\<^verbatim>\<open>fileTypes[ft] = fileTypes.get(ft, 0) + count\<close>, once and for every item of a dictionary.\<close>

definition add_count :: "string \<Rightarrow> int \<Rightarrow> (string \<times> int) list \<Rightarrow> (string \<times> int) list" where
  "add_count ft count d = dict_set ft (dict_get d ft 0 + count) d"

fun add_counts :: "(string \<times> int) list \<Rightarrow> (string \<times> int) list \<Rightarrow> (string \<times> int) list" where
  "add_counts [] d = d"
| "add_counts ((ft, count) # rest) d = add_counts rest (add_count ft count d)"

text \<open>\<^verbatim>\<open>max(lastModified or t, t)\<close>\<close>

definition watermark :: "string option \<Rightarrow> string \<Rightarrow> string option" where
  "watermark seen t =
     Some (str_max (case seen of None \<Rightarrow> t | Some l \<Rightarrow> if l = [] then t else l) t)"

text \<open>\<^verbatim>\<open>item.get('modifiedTime') or item.get('createdTime')\<close>\<close>

definition item_modified :: "remote_item \<Rightarrow> string option" where
  "item_modified item =
     (case item_modifiedTime item of
        None \<Rightarrow> item_createdTime item
      | Some m \<Rightarrow> if m = [] then item_createdTime item else Some m)"

text \<open>
  The file branch of the loop body, after the size has been converted: the updates of
  \<^verbatim>\<open>folder_stats\<close>, and the dictionary appended to \<^verbatim>\<open>children\<close>.
\<close>

definition file_stats :: "remote_item \<Rightarrow> int \<Rightarrow> folder_stats \<Rightarrow> folder_stats" where
  "file_stats item size_bytes fs =
     (let fs = fs\<lparr>fs_fileCount := fs_fileCount fs + 1\<rparr>;
          size_mb = of_int size_bytes / (1024 * 1024);
          fs = fs\<lparr>fs_sizeDistribution := add_bucket size_mb (fs_sizeDistribution fs)\<rparr>;
          fs = fs\<lparr>fs_totalSizeMB := fs_totalSizeMB fs + size_mb\<rparr>;
          file_type = categorize_file (item_mimeType item);
          fs = fs\<lparr>fs_fileTypes := add_count file_type 1 (fs_fileTypes fs)\<rparr>
      in case item_modified item of
           None \<Rightarrow> fs
         | Some m \<Rightarrow>
             if m = [] then fs
             else fs\<lparr>lastModified :=
                    watermark (lastModified fs) (safe_datetime_format (Some m))\<rparr>)"

definition file_entry :: "remote_item \<Rightarrow> int \<Rightarrow> file_node" where
  "file_entry item size_bytes =
     \<lparr>name = item_name item,
      node_id = item_id item,
      driveLink =
        (case item_webViewLink item of
           None \<Rightarrow> ''https://drive.google.com/file/d/'' @ item_id item @ ''/view''
         | Some l \<Rightarrow> l),
      mimeType = item_mimeType item,
      category = categorize_file (item_mimeType item),
      fsize = format_file_size (Some size_bytes),
      modifiedTime = safe_datetime_format (item_modified item),
      createdTime = safe_datetime_format (item_createdTime item)\<rparr>"

definition add_file ::
  "remote_item \<Rightarrow> int \<Rightarrow> folder_stats \<times> node list \<Rightarrow> folder_stats \<times> node list" where
  "add_file item size_bytes acc =
     (case acc of (fs, nodes) \<Rightarrow>
        (file_stats item size_bytes fs, nodes @ [File (file_entry item size_bytes)]))"

text \<open>
  The folder branch of the loop body, after the two calls for the subfolder: the
  dictionary appended to \<^verbatim>\<open>children\<close>, and the updates of \<^verbatim>\<open>folder_stats\<close>.
\<close>

definition folder_entry :: "remote_item \<Rightarrow> folder_tree \<Rightarrow> string \<Rightarrow> node" where
  "folder_entry item subtree descr =
     Folder
       \<lparr>name = item_name item,
        node_id = item_id item,
        driveLink = ''https://drive.google.com/drive/folders/'' @ item_id item,
        description = descr\<rparr>
       \<lparr>fileCount = fileCount subtree,
        folderCount = folderCount subtree,
        totalSizeMB = totalSizeMB subtree,
        lastUpdated = lastUpdated subtree,
        fileTypes = fileTypes subtree,
        sizeDistribution = sizeDistribution subtree\<rparr>
       (children subtree)"

definition subfolder_stats :: "folder_tree \<Rightarrow> folder_stats \<Rightarrow> folder_stats" where
  "subfolder_stats subtree fs =
     (let fs = fs\<lparr>fs_totalSizeMB := fs_totalSizeMB fs + totalSizeMB subtree\<rparr>;
          fs = fs\<lparr>fs_fileCount := fs_fileCount fs + fileCount subtree\<rparr>;
          fs = fs\<lparr>fs_folderCount := fs_folderCount fs + folderCount subtree\<rparr>;
          fs = fs\<lparr>fs_fileTypes := add_counts (fileTypes subtree) (fs_fileTypes fs)\<rparr>;
          fs = fs\<lparr>fs_sizeDistribution :=
                    add_distribution (sizeDistribution subtree) (fs_sizeDistribution fs)\<rparr>
      in if lastUpdated subtree \<noteq> [] \<and> lastUpdated subtree \<noteq> ''N/A''
         then fs\<lparr>lastModified := watermark (lastModified fs) (lastUpdated subtree)\<rparr>
         else fs)"

definition add_folder ::
  "remote_item \<Rightarrow> folder_tree \<Rightarrow> string \<Rightarrow> folder_stats \<times> node list \<Rightarrow>
     folder_stats \<times> node list" where
  "add_folder item subtree descr acc =
     (case acc of (fs, nodes) \<Rightarrow>
        (subfolder_stats subtree fs, nodes @ [folder_entry item subtree descr]))"

text \<open>The dictionary that \<^verbatim>\<open>get_folder_tree\<close> returns.\<close>

definition finish :: "folder_stats \<times> node list \<Rightarrow> folder_tree" where
  "finish acc =
     (case acc of (fs, nodes) \<Rightarrow>
        \<lparr>fileCount = fs_fileCount fs,
         folderCount = fs_folderCount fs,
         totalSizeMB = py_round (fs_totalSizeMB fs) 2,
         lastUpdated =
           (case lastModified fs of None \<Rightarrow> ''N/A'' | Some l \<Rightarrow> if l = [] then ''N/A'' else l),
         fileTypes = fs_fileTypes fs,
         sizeDistribution = fs_sizeDistribution fs,
         children = nodes\<rparr>)"

text \<open>
  A run of the scan either does not come back (\<open>None\<close>: the remote keeps sending pages
  or subfolders) or ends with a value or an exception, and with the counters.
\<close>

type_synonym 'a run = "((exn + 'a) \<times> scan_stats) option"

text \<open>
  The loop over the entries of one page.  \<open>recurse\<close> is the recursive call
  \<^verbatim>\<open>self.get_folder_tree(item['id'], item['name'])\<close>.
\<close>

fun item_loop ::
  "(string \<Rightarrow> scan_stats \<Rightarrow> folder_tree run) \<Rightarrow> config \<Rightarrow> remote \<Rightarrow> remote_item list \<Rightarrow>
     folder_stats \<times> node list \<Rightarrow> scan_stats \<Rightarrow> (folder_stats \<times> node list) run" where
  "item_loop recurse cfg rem [] acc st = Some (Inr acc, st)"
| "item_loop recurse cfg rem (item # items) acc st =
     (if item_mimeType item = ''application/vnd.google-apps.folder'' then
        let st = st\<lparr>totalFolders := totalFolders st + 1\<rparr>;
            acc = (case acc of (fs, nodes) \<Rightarrow>
                     (fs\<lparr>fs_folderCount := fs_folderCount fs + 1\<rparr>, nodes))
        in case recurse (item_id item) st of
             None \<Rightarrow> None
           | Some (Inl e, st) \<Rightarrow> Some (Inl e, st)
           | Some (Inr subtree, st) \<Rightarrow>
               (case get_folder_description cfg rem (item_id item) st of
                  (descr, st) \<Rightarrow>
                    item_loop recurse cfg rem items (add_folder item subtree descr acc) st)
      else
        let st = st\<lparr>totalFiles := totalFiles st + 1\<rparr>
        in case size_bytes_of (item_size item) of
             Inl e \<Rightarrow> Some (Inl e, st)
           | Inr size_bytes \<Rightarrow>
               item_loop recurse cfg rem items (add_file item size_bytes acc) st)"

text \<open>A response that is an empty dictionary counts as false in \<^verbatim>\<open>if not response\<close>.\<close>

definition empty_response :: "list_response \<Rightarrow> bool" where
  "empty_response response \<longleftrightarrow> files response = None \<and> nextPageToken response = None"

text \<open>The \<^verbatim>\<open>while True\<close> loop over the pages of one folder; the first argument bounds the number of pages.\<close>

fun page_loop ::
  "nat \<Rightarrow> (string \<Rightarrow> scan_stats \<Rightarrow> folder_tree run) \<Rightarrow> config \<Rightarrow> remote \<Rightarrow> string \<Rightarrow>
     string option \<Rightarrow> folder_stats \<times> node list \<Rightarrow> scan_stats \<Rightarrow> (folder_stats \<times> node list) run" where
  "page_loop 0 recurse cfg rem folder_id page_token acc st = None"
| "page_loop (Suc n) recurse cfg rem folder_id page_token acc st =
     (case make_api_call_with_retry cfg (\<lambda>i. list_call rem i folder_id page_token) st of
        (Inl e, st) \<Rightarrow> Some (Inl e, st)
      | (Inr None, st) \<Rightarrow> Some (Inr acc, st)
      | (Inr (Some response), st) \<Rightarrow>
          if empty_response response then Some (Inr acc, st)
          else
            (case item_loop recurse cfg rem
                    (case files response of None \<Rightarrow> [] | Some fl \<Rightarrow> fl) acc st of
               None \<Rightarrow> None
             | Some (Inl e, st) \<Rightarrow> Some (Inl e, st)
             | Some (Inr acc, st) \<Rightarrow>
                 (case nextPageToken response of
                    None \<Rightarrow> Some (Inr acc, st)
                  | Some token \<Rightarrow>
                      if token = [] then Some (Inr acc, st)
                      else page_loop n recurse cfg rem folder_id (Some token) acc st)))"

text \<open>
  The first argument bounds the depth of the folders below the scanned one and the
  number of pages of each folder.  The name of the folder is only printed and is not an
  argument here.
\<close>

primrec get_folder_tree ::
  "nat \<Rightarrow> config \<Rightarrow> remote \<Rightarrow> string \<Rightarrow> scan_stats \<Rightarrow> folder_tree run" where
  "get_folder_tree 0 cfg rem folder_id st = None"
| "get_folder_tree (Suc n) cfg rem folder_id st =
     (case page_loop (Suc n) (get_folder_tree n cfg rem) cfg rem folder_id None
             (initial_folder_stats, []) st of
        None \<Rightarrow> None
      | Some (Inl e, st) \<Rightarrow> Some (Inl e, st)
      | Some (Inr acc, st) \<Rightarrow> Some (Inr (finish acc), st))"

definition initial_stats :: scan_stats where
  "initial_stats = \<lparr>totalFiles = 0, totalFolders = 0, apiCallsCount = 0, errors = []\<rparr>"


section \<open>Aggregation over the children of a folder\<close>














section \<open>Example data\<close>

definition ex_changes :: change_set where
  "ex_changes = \<lparr>added_files = [\<lparr>ae_id = ''B'', ae_name = ''b.txt'', ae_size = 500\<rparr>],
      deleted_files = [], modified_files = [], total_changes = 1, summary = ''1 files added''\<rparr>"

definition ex_entry :: "string \<Rightarrow> change_set \<Rightarrow> history_entry" where
  "ex_entry v c = \<lparr>version = Some v, current_version = None, n_version = None,
      scan_date = Some ''2024-01-02T00:00:00+08:00'', scanner_version = Some ''1.0.0'',
      changes = Some c,
      stats = Some \<lparr>es_totalFiles = 2, es_totalFolders = 0, es_totalSizeMB = 0\<rparr>\<rparr>"

definition no_changes :: change_set where
  "no_changes = \<lparr>added_files = [], deleted_files = [], modified_files = [],
      total_changes = 0, summary = ''No changes detected''\<rparr>"

definition legacy_entry :: history_entry where
  "legacy_entry = \<lparr>version = None, current_version = Some ''0.9.9'', n_version = None,
      scan_date = Some ''2023-12-31T00:00:00+08:00'', scanner_version = Some ''1.0.0'',
      changes = Some ex_changes, stats = None\<rparr>"


definition ex_library :: library where
  "ex_library = \<lparr>md5_hexdigest = (\<lambda>s. s), str_of_size = (\<lambda>z. py_str (bytes z))\<rparr>"

definition ex_file :: "string \<Rightarrow> int \<Rightarrow> node" where
  "ex_file i b =
     File \<lparr>name = i @ ''.txt'', node_id = i,
           driveLink = ''https://drive.google.com/file/d/'' @ i @ ''/view'',
           mimeType = ''text/plain'', category = ''documents'',
           fsize = \<lparr>bytes = b, kb = 0, mb = 0, gb = 0\<rparr>,
           modifiedTime = ''2024-01-01 10:00:00'', createdTime = ''2024-01-01 10:00:00''\<rparr>"

definition ex_tree :: folder_tree where
  "ex_tree =
     \<lparr>fileCount = 2, folderCount = 0, totalSizeMB = 0, lastUpdated = ''2024-01-01 10:00:00'',
      fileTypes = [(''documents'', 2)],
      sizeDistribution = \<lparr>small = 2, medium = 0, large = 0, huge = 0\<rparr>,
      children = [ex_file ''A'' 100, ex_file ''B'' 500]\<rparr>"

definition ex_previous :: previous_scan where
  "ex_previous =
     \<lparr>prev_version = Some ''1.0.0'',
      file_signatures =
        Some [(''A'', \<lparr>sig_signature = ''A-A.txt-100-2024-01-01 10:00:00'', sig_name = ''A.txt'',
                       sig_size = 100, sig_modified = ''2024-01-01 10:00:00''\<rparr>)]\<rparr>"

definition ex_config :: config where
  "ex_config = \<lparr>maxRetries = 3, retryDelay = 2, parentFolderId = ''root''\<rparr>"

definition file_item :: "string \<Rightarrow> size_field \<Rightarrow> remote_item" where
  "file_item i s =
     \<lparr>item_id = i, item_name = i @ ''.pdf'', item_mimeType = ''application/pdf'',
      item_size = s, item_modifiedTime = Some ''2024-01-01T10:00:00.000Z'',
      item_createdTime = Some ''2023-12-01T10:00:00.000Z'', item_webViewLink = None\<rparr>"



text \<open>A service that answers every call with the rate-limit status, and one that fails.\<close>

definition ex_rate_limited :: remote where
  "ex_rate_limited =
     \<lparr>list_call = (\<lambda>i folder page. Raised (HttpError 429 ''rate limit'')),
      get_call = (\<lambda>i folder. Raised (HttpError 429 ''rate limit''))\<rparr>"

definition ex_failing :: remote where
  "ex_failing =
     \<lparr>list_call = (\<lambda>i folder page. Raised (HttpError 500 ''backend error'')),
      get_call = (\<lambda>i folder. Raised (HttpError 500 ''backend error''))\<rparr>"

section \<open>Properties of the Version Manager\<close>

subsection \<open>Decimal conversion round trip\<close>

declare str_nat.simps [simp del]

lemma str_nat_small: "n < 10 \<Longrightarrow> str_nat n = [digit_char n]"
  by (subst str_nat.simps) simp

lemma str_nat_large: "\<not> n < 10 \<Longrightarrow> str_nat n = str_nat (n div 10) @ [digit_char (n mod 10)]"
  by (subst str_nat.simps) simp

lemma below_ten_cases:
  "(d::nat) < 10 \<Longrightarrow>
     d = 0 \<or> d = 1 \<or> d = 2 \<or> d = 3 \<or> d = 4 \<or> d = 5 \<or> d = 6 \<or> d = 7 \<or> d = 8 \<or> d = 9"
  by arith

lemma digit_val_digit_char: "d < 10 \<Longrightarrow> digit_val (digit_char d) = Some d"
  using below_ten_cases [of d] by (auto simp: digit_val_def decimal_digits_def digit_char_def)

lemma digit_val_not_space: "digit_val c = Some v \<Longrightarrow> \<not> int_space c"
  by (auto simp: digit_val_def decimal_digits_def int_space_def split: if_splits)

lemma digit_val_not_special:
  "digit_val c = Some v \<Longrightarrow> c \<noteq> CHR ''_'' \<and> c \<noteq> CHR ''-'' \<and> c \<noteq> CHR ''+'' \<and> c \<noteq> CHR ''.''"
  by (auto simp: digit_val_def decimal_digits_def split: if_splits)

lemma int_digits_foldl:
  "\<forall>c \<in> set ds. digit_val c \<noteq> None \<Longrightarrow> int_digits acc ds = Some (foldl dec_step acc ds)"
proof (induction acc ds rule: int_digits.induct)
  case (1 acc)
  then show ?case by simp
next
  case (2 acc c)
  then show ?case by (auto simp: dec_step_def)
next
  case (3 acc c d cs)
  from "3.prems" obtain v where v: "digit_val c = Some v" by auto
  then have "c \<noteq> CHR ''_''" using digit_val_not_special by blast
  with 3 v show ?case by (simp add: dec_step_def)
qed

lemma str_nat_digits: "\<forall>c \<in> set (str_nat n). digit_val c \<noteq> None"
proof (induction n rule: str_nat.induct)
  case (1 n)
  show ?case
  proof (cases "n < 10")
    case True
    then show ?thesis by (simp add: str_nat_small digit_val_digit_char)
  next
    case False
    then have "str_nat n = str_nat (n div 10) @ [digit_char (n mod 10)]" by (rule str_nat_large)
    moreover have "digit_val (digit_char (n mod 10)) \<noteq> None"
      by (simp add: digit_val_digit_char)
    ultimately show ?thesis using 1 False by auto
  qed
qed

lemma str_nat_nonempty: "str_nat n \<noteq> []"
  by (cases "n < 10") (simp_all add: str_nat_small str_nat_large)

lemma foldl_str_nat: "foldl dec_step 0 (str_nat n) = n"
proof (induction n rule: str_nat.induct)
  case (1 n)
  show ?case
  proof (cases "n < 10")
    case True
    then show ?thesis by (simp add: str_nat_small dec_step_def digit_val_digit_char)
  next
    case False
    then have "str_nat n = str_nat (n div 10) @ [digit_char (n mod 10)]" by (rule str_nat_large)
    then have "foldl dec_step 0 (str_nat n) = dec_step (n div 10) (digit_char (n mod 10))"
      using 1 False by simp
    moreover have "dec_step (n div 10) (digit_char (n mod 10)) = n"
      by (simp add: dec_step_def digit_val_digit_char)
    ultimately show ?thesis by simp
  qed
qed

lemma int_literal_str_nat: "int_literal (str_nat n) = Some n"
proof -
  obtain c cs where s: "str_nat n = c # cs"
    using str_nat_nonempty by (cases "str_nat n") auto
  have all: "\<forall>x \<in> set (c # cs). digit_val x \<noteq> None"
    using str_nat_digits [of n] s by simp
  then obtain v where v: "digit_val c = Some v" by auto
  have "int_digits v cs = Some (foldl dec_step v cs)"
    using all by (intro int_digits_foldl) simp
  moreover have "foldl dec_step v cs = foldl dec_step 0 (c # cs)"
    using v by (simp add: dec_step_def)
  ultimately show ?thesis
    using s v foldl_str_nat [of n] by (simp add: int_literal_def)
qed

lemma dropWhile_id: "xs = [] \<or> \<not> P (hd xs) \<Longrightarrow> dropWhile P xs = xs"
  by (cases xs) auto

lemma strip_int_id:
  assumes "s \<noteq> []" "\<not> int_space (hd s)" "\<not> int_space (last s)"
  shows "strip_int s = s"
proof -
  have "dropWhile int_space s = s" using assms by (simp add: dropWhile_id)
  moreover have "dropWhile int_space (rev s) = rev s"
    using assms by (intro dropWhile_id) (simp add: hd_rev)
  ultimately show ?thesis by (simp add: strip_int_def)
qed

lemma str_nat_hd: "digit_val (hd (str_nat n)) \<noteq> None"
  using str_nat_digits [of n] str_nat_nonempty [of n] by (cases "str_nat n") auto

lemma str_nat_last: "digit_val (last (str_nat n)) \<noteq> None"
  using str_nat_digits [of n] str_nat_nonempty [of n] last_in_set by blast

lemma py_int_py_str: "py_int (py_str i) = Inr i"
proof (cases "i < 0")
  case True
  let ?d = "str_nat (nat (- i))"
  have s: "py_str i = CHR ''-'' # ?d" using True by (simp add: py_str_def)
  have "\<not> int_space (last (CHR ''-'' # ?d))"
    using str_nat_last [of "nat (- i)"] str_nat_nonempty [of "nat (- i)"] digit_val_not_space
    by auto
  moreover have "\<not> int_space (CHR ''-'')" by (simp add: int_space_def)
  ultimately have "strip_int (CHR ''-'' # ?d) = CHR ''-'' # ?d"
    by (intro strip_int_id) simp_all
  then show ?thesis
    using True s by (simp add: py_int_def int_literal_str_nat)
next
  case False
  let ?d = "str_nat (nat i)"
  have s: "py_str i = ?d" using False by (simp add: py_str_def)
  obtain v where v: "digit_val (hd ?d) = Some v" using str_nat_hd [of "nat i"] by auto
  have "strip_int ?d = ?d"
    using str_nat_hd [of "nat i"] str_nat_last [of "nat i"] str_nat_nonempty digit_val_not_space
    by (intro strip_int_id) auto
  moreover have "hd ?d \<noteq> CHR ''-''" "hd ?d \<noteq> CHR ''+''"
    using digit_val_not_special [OF v] by simp_all
  ultimately show ?thesis
    using False s by (simp add: py_int_def int_literal_str_nat)
qed

lemma py_str_no_dot: "CHR ''.'' \<notin> set (py_str i)"
proof -
  have "CHR ''.'' \<notin> set (str_nat n)" for n
    using str_nat_digits [of n] digit_val_not_special by fastforce
  then show ?thesis by (simp add: py_str_def)
qed

lemma split_on_none: "sep \<notin> set a \<Longrightarrow> split_on sep a = [a]"
  by (induction a) auto

lemma split_on_append: "sep \<notin> set a \<Longrightarrow> split_on sep (a @ sep # r) = a # split_on sep r"
  by (induction a) auto

lemma parse_format_version: "parse_version (format_version (a, b, c)) = Inr (a, b, c)"
proof -
  have "split_on (CHR ''.'') (format_version (a, b, c)) = [py_str a, py_str b, py_str c]"
    by (simp add: format_version_def split_on_append split_on_none py_str_no_dot)
  then show ?thesis
    by (simp add: parse_version_def py_int_py_str unpack3_def)
qed

lemma bump_changes: "bump v \<noteq> v"
  by (cases v) (auto simp: bump_def Let_def)

lemma py_int_error: "py_int s = Inl e \<Longrightarrow> e = ValueError"
  by (auto simp: py_int_def Let_def split: option.splits)

lemma map_int_error: "map_int ss = Inl e \<Longrightarrow> e = ValueError"
  by (induction ss arbitrary: e) (auto split: sum.splits dest: py_int_error)

lemma parse_version_error: "parse_version v = Inl e \<Longrightarrow> e = ValueError"
  by (auto simp: parse_version_def unpack3_def split: sum.splits list.splits dest: map_int_error)

lemma increment_version_parsed:
  "parse_version v = Inr p \<Longrightarrow> increment_version v True = Inr (format_version (bump p))"
  by (simp add: increment_version_def)

lemma increment_version_malformed:
  "parse_version v = Inl e \<Longrightarrow> increment_version v True = Inr ''1.0.1''"
  using parse_version_error [of v e] by (simp add: increment_version_def)

subsection \<open>Carry arithmetic\<close>



subsection \<open>The version changes exactly when the scan saw changes\<close>

text \<open>
  C3.  Without changes the previous version string is returned as it is, whatever its
  shape; with changes, a well-formed previous version is never returned unchanged.
\<close>

theorem increment_version_changes_iff:
  "increment_version v False = Inr v \<and>
   (well_formed v \<longrightarrow> increment_version v True \<noteq> Inr v)"
proof (intro conjI impI)
  show "increment_version v False = Inr v" by (simp add: increment_version_def)
next
  assume "well_formed v"
  then obtain p where p: "parse_version v = Inr p"
    by (auto simp: well_formed_def split: sum.splits)
  show "increment_version v True \<noteq> Inr v"
  proof
    assume "increment_version v True = Inr v"
    with p have v: "v = format_version (bump p)" by (simp add: increment_version_parsed)
    obtain a b c where q: "bump p = (a, b, c)" by (cases "bump p") auto
    have "parse_version v = Inr (bump p)"
      using v q parse_format_version [of a b c] by simp
    with p have "bump p = p" by simp
    then show False using bump_changes by blast
  qed
qed

theorem increment_version_changes_iff_witness:
  "well_formed ''1.0.0'' \<and> increment_version ''1.0.0'' False = Inr ''1.0.0'' \<and>
   increment_version ''1.0.0'' True \<noteq> Inr ''1.0.0''"
proof -
  have w: "well_formed ''1.0.0''" by code_simp
  show ?thesis
    using w increment_version_changes_iff [of "''1.0.0''"] by simp
qed

subsection \<open>Malformed previous versions\<close>

text \<open>
  C8.  Advancing with changes never raises on a string: a result is always returned,
  and for a malformed previous version (wrong number of components, or a component
  that is not an integer literal) the result is the fixed version \<^verbatim>\<open>1.0.1\<close>.
\<close>

theorem increment_version_fallback:
  "(\<exists>s. increment_version v True = Inr s) \<and>
   (\<not> well_formed v \<longrightarrow> increment_version v True = Inr ''1.0.1'')"
proof (cases "parse_version v")
  case (Inl e)
  then show ?thesis by (simp add: increment_version_malformed well_formed_def)
next
  case (Inr p)
  then show ?thesis by (simp add: increment_version_parsed well_formed_def)
qed

theorem increment_version_fallback_witness:
  "\<not> well_formed ''1.2'' \<and> increment_version ''1.2'' True = Inr ''1.0.1'' \<and>
   \<not> well_formed ''1.x.3'' \<and> increment_version ''1.x.3'' True = Inr ''1.0.1''"
proof -
  have a: "\<not> well_formed ''1.2''" by code_simp
  have b: "\<not> well_formed ''1.x.3''" by code_simp
  show ?thesis
    using a b increment_version_fallback [of "''1.2''"] increment_version_fallback [of "''1.x.3''"]
    by simp
qed

subsection \<open>Range of the components\<close>

text \<open>
  The major component has no carry: from \<^verbatim>\<open>9.9.9\<close> the next version is
  \<^verbatim>\<open>10.0.0\<close>, whose major component is outside the digit range.
\<close>

theorem increment_version_major_counterexample:
  "parse_version ''9.9.9'' = Inr (9, 9, 9) \<and> single_digits (9, 9, 9) \<and>
   increment_version ''9.9.9'' True = Inr ''10.0.0'' \<and>
   parse_version ''10.0.0'' = Inr (10, 0, 0) \<and> \<not> single_digits (10, 0, 0)"
  by code_simp

text \<open>
  C9 (amended).  For a previous version whose three components are in the range 0 to 9,
  the next version is well formed, its minor and patch components are again in the
  range 0 to 9, and its major component is in the range 0 to 10, the value 10 being
  reached from \<^verbatim>\<open>9.9.9\<close> only.
\<close>

theorem increment_version_range:
  assumes "parse_version v = Inr (major, minor, patch)"
    and "single_digits (major, minor, patch)"
  shows "increment_version v True = Inr (format_version (bump (major, minor, patch))) \<and>
         parse_version (format_version (bump (major, minor, patch))) =
           Inr (bump (major, minor, patch)) \<and>
         (case bump (major, minor, patch) of (major', minor', patch') \<Rightarrow>
            0 \<le> minor' \<and> minor' \<le> 9 \<and> 0 \<le> patch' \<and> patch' \<le> 9 \<and>
            0 \<le> major' \<and> major' \<le> 10 \<and>
            (major' = 10 \<longrightarrow> (major, minor, patch) = (9, 9, 9)))"
proof (intro conjI)
  show "increment_version v True = Inr (format_version (bump (major, minor, patch)))"
    using assms(1) by (rule increment_version_parsed)
next
  obtain a b c where q: "bump (major, minor, patch) = (a, b, c)"
    by (cases "bump (major, minor, patch)") auto
  show "parse_version (format_version (bump (major, minor, patch))) =
           Inr (bump (major, minor, patch))"
    unfolding q by (rule parse_format_version)
next
  show "case bump (major, minor, patch) of (major', minor', patch') \<Rightarrow>
            0 \<le> minor' \<and> minor' \<le> 9 \<and> 0 \<le> patch' \<and> patch' \<le> 9 \<and>
            0 \<le> major' \<and> major' \<le> 10 \<and>
            (major' = 10 \<longrightarrow> (major, minor, patch) = (9, 9, 9))"
    using assms(2) by (auto simp: bump_def single_digits_def Let_def)
qed

theorem increment_version_range_witness:
  "parse_version ''2.9.9'' = Inr (2, 9, 9) \<and> single_digits (2, 9, 9) \<and>
   increment_version ''2.9.9'' True = Inr (format_version (bump (2, 9, 9))) \<and>
   bump (2, 9, 9) = (3, 0, 0)"
proof -
  have p: "parse_version ''2.9.9'' = Inr (2, 9, 9)" by code_simp
  have s: "single_digits (2, 9, 9)" by code_simp
  have b: "bump (2, 9, 9) = (3, 0, 0)" by code_simp
  show ?thesis
    using p s b increment_version_range [OF p s] by simp
qed

section \<open>Properties of the version history\<close>

subsection \<open>A scan with changes adds an entry\<close>

text \<open>
  C5.  An entry whose change set has a positive \<^verbatim>\<open>total_changes\<close> is put in front of
  the (standardized) history and the result is cut to its first 50 entries, so that the
  oldest entries are the ones dropped.  On a history of 50 entries the result has 50
  entries again and the new entry is its head.
\<close>

theorem save_version_history_insert:
  assumes "changes new_entry = Some c" and "total_changes c > 0"
  shows "\<exists>r. save_version_history history new_entry = Inr r \<and>
           r = take 50 (new_entry # map standardize history) \<and>
           length r \<le> 50 \<and> hd r = new_entry \<and>
           (length history = 50 \<longrightarrow> length r = 50)"
  using assms by (auto simp: save_version_history_def entry_total_changes_def Let_def)

theorem save_version_history_insert_witness:
  "changes (ex_entry ''1.0.1'' ex_changes) = Some ex_changes \<and> total_changes ex_changes > 0 \<and>
   length (replicate 50 (ex_entry ''1.0.0'' ex_changes)) = 50 \<and>
   (\<exists>r. save_version_history (replicate 50 (ex_entry ''1.0.0'' ex_changes)) (ex_entry ''1.0.1'' ex_changes) = Inr r \<and>
        length r = 50 \<and> hd r = ex_entry ''1.0.1'' ex_changes)"
proof -
  have a: "changes (ex_entry ''1.0.1'' ex_changes) = Some ex_changes" by (simp add: ex_entry_def)
  have b: "total_changes ex_changes > 0" by (simp add: ex_changes_def)
  show ?thesis
    using a b save_version_history_insert [OF a b, of "replicate 50 (ex_entry ''1.0.0'' ex_changes)"]
    by auto
qed

subsection \<open>A scan without changes refreshes the head\<close>

text \<open>
  The entries of the history are not left as they are: the loop that standardizes the
  version key rewrites every entry that carries a legacy key, here the second one.
\<close>

theorem save_version_history_frame_counterexample:
  "entry_total_changes (ex_entry ''1.0.0'' no_changes) = 0 \<and>
   save_version_history [ex_entry ''1.0.0'' ex_changes, legacy_entry] (ex_entry ''1.0.0'' no_changes) =
     Inr [ex_entry ''1.0.0'' ex_changes,
          legacy_entry\<lparr>version := Some ''0.9.9'', current_version := None\<rparr>] \<and>
   legacy_entry\<lparr>version := Some ''0.9.9'', current_version := None\<rparr> \<noteq> legacy_entry"
  by (simp add: save_version_history_def entry_total_changes_def ex_entry_def no_changes_def
      legacy_entry_def standardize_def ex_changes_def)

text \<open>
  C6 (amended).  Merging an entry with \<^verbatim>\<open>total_changes\<close> equal to 0 into a non-empty
  history does not make the history longer.  The result is the standardized history,
  cut to its first 50 entries, in which the head has the scan date of the new entry
  and, when the new entry has them, its stats; no other field of the head and no other
  retained entry differs from its standardized form.  When no entry carries a legacy
  version key and the history has at most 50 entries, the result is the history itself
  with only these two fields of the head overwritten.
\<close>

theorem save_version_history_refresh:
  assumes "entry_total_changes new_entry = 0" and "history \<noteq> []"
    and "scan_date new_entry = Some d"
  shows "\<exists>r. save_version_history history new_entry = Inr r \<and>
           r = take 50 (refresh_top new_entry (standardize (hd history)) #
                        map standardize (tl history)) \<and>
           length r \<le> length history \<and>
           ((\<forall>e \<in> set history. standardize e = e) \<and> length history \<le> 50 \<longrightarrow>
              r = refresh_top new_entry (hd history) # tl history)"
proof -
  from assms(2) obtain h t where h: "history = h # t" by (cases history) auto
  have "map standardize t = t" if "\<forall>e \<in> set t. standardize e = e"
    using that by (induction t) auto
  then show ?thesis
    using assms h
    by (auto simp: save_version_history_def Let_def refresh_top_def split: option.splits)
qed

theorem save_version_history_refresh_witness:
  "entry_total_changes (ex_entry ''1.0.0'' no_changes) = 0 \<and>
   [ex_entry ''1.0.0'' ex_changes, legacy_entry] \<noteq> [] \<and>
   (\<exists>r. save_version_history [ex_entry ''1.0.0'' ex_changes, legacy_entry] (ex_entry ''1.0.0'' no_changes) = Inr r \<and>
        length r \<le> 2)"
proof -
  have a: "entry_total_changes (ex_entry ''1.0.0'' no_changes) = 0"
    by (simp add: entry_total_changes_def ex_entry_def no_changes_def)
  have b: "[ex_entry ''1.0.0'' ex_changes, legacy_entry] \<noteq> []" by simp
  have c: "scan_date (ex_entry ''1.0.0'' no_changes) = Some ''2024-01-02T00:00:00+08:00''"
    by (simp add: ex_entry_def)
  show ?thesis
    using a b save_version_history_refresh [OF a b c] by auto
qed

section \<open>Properties of the Diff Engine\<close>

lemma dict_set_keys: "fst ` set (dict_set k v d) = insert k (fst ` set d)"
  by (induction d) auto

lemma dict_set_is_dict: "is_dict d \<Longrightarrow> is_dict (dict_set k v d)"
proof (induction d)
  case Nil
  then show ?case by (simp add: is_dict_def)
next
  case (Cons p ps)
  have "fst ` set (dict_set k v ps) = insert k (fst ` set ps)" by (rule dict_set_keys)
  with Cons show ?case by (auto simp: is_dict_def)
qed

lemma extract_children_is_dict:
  "is_dict signatures \<Longrightarrow> is_dict (extract_children lib items signatures)"
  by (induction lib items signatures rule: extract_children.induct)
     (simp_all add: dict_set_is_dict)

lemma extract_file_signatures_is_dict: "is_dict (extract_file_signatures lib t)"
  unfolding extract_file_signatures_def
  by (rule extract_children_is_dict) (simp add: is_dict_def)

lemma length_concat_sum: "length (concat (map f xs)) = sum_list (map (\<lambda>x. length (f x)) xs)"
  by (induction xs) auto

lemma three_way_split:
  assumes "\<And>x. x \<in> set xs \<Longrightarrow> length (f x) + length (g x) + length (h x) = 1"
  shows "length (concat (map f xs)) + length (concat (map g xs)) + length (concat (map h xs)) =
           length xs"
  using assms
proof (induction xs)
  case Nil
  then show ?case by simp
next
  case (Cons x xs)
  have "length (f x) + length (g x) + length (h x) = 1" using Cons.prems by simp
  moreover have "length (concat (map f xs)) + length (concat (map g xs)) +
      length (concat (map h xs)) = length xs"
    using Cons by simp
  ultimately show ?case by simp
qed

lemma two_way_split:
  assumes "\<And>x. x \<in> set xs \<Longrightarrow> length (f x) + (if P x then 1 else 0) = 1"
  shows "length (concat (map f xs)) + length (filter P xs) = length xs"
  using assms
proof (induction xs)
  case Nil
  then show ?case by simp
next
  case (Cons x xs)
  have "length (f x) + (if P x then 1 else 0) = 1" using Cons.prems by simp
  moreover have "length (concat (map f xs)) + length (filter P xs) = length xs"
    using Cons by simp
  ultimately show ?case by (simp split: if_splits)
qed

lemma sides_add_up:
  "length (added_of prev kv) + length (unchanged_of prev kv) + length (modified_of prev kv) = 1"
  by (cases kv) (auto simp: added_of_def unchanged_of_def modified_of_def Let_def split: option.splits)

lemma mem_keys: "k \<in> fst ` set d \<longleftrightarrow> map_of d k \<noteq> None"
  by (simp add: map_of_eq_None_iff)

lemma common_cur:
  "length (unchanged_of prev kv) + length (modified_of prev kv) =
     (if fst kv \<in> fst ` set prev then 1 else 0)"
proof (cases kv)
  case (Pair k v)
  show ?thesis
  proof (cases "map_of prev k")
    case None
    then show ?thesis using Pair by (simp add: mem_keys unchanged_of_def modified_of_def)
  next
    case (Some p)
    then show ?thesis using Pair by (auto simp: mem_keys unchanged_of_def modified_of_def Let_def)
  qed
qed

lemma common_count_cur:
  "length (concat (map (unchanged_of prev) cur)) + length (concat (map (modified_of prev) cur)) =
     length (filter (\<lambda>kv. fst kv \<in> fst ` set prev) cur)"
proof (induction cur)
  case Nil
  then show ?case by simp
next
  case (Cons kv cur)
  show ?case using Cons common_cur [of prev kv] by (simp split: if_splits)
qed

lemma filter_keys_card:
  assumes "is_dict xs"
  shows "length (filter (\<lambda>kv. fst kv \<in> K) xs) = card (fst ` set xs \<inter> K)"
proof -
  have d: "distinct (map fst (filter (\<lambda>kv. fst kv \<in> K) xs))"
    using assms by (simp add: is_dict_def distinct_map_filter)
  have "length (filter (\<lambda>kv. fst kv \<in> K) xs) = length (map fst (filter (\<lambda>kv. fst kv \<in> K) xs))"
    by simp
  also have "\<dots> = card (set (map fst (filter (\<lambda>kv. fst kv \<in> K) xs)))"
    using d by (simp only: distinct_card)
  also have "set (map fst (filter (\<lambda>kv. fst kv \<in> K) xs)) = fst ` set xs \<inter> K"
    by auto
  finally show ?thesis .
qed

lemma common_symmetric:
  assumes "is_dict cur" and "is_dict prev"
  shows "length (filter (\<lambda>kv. fst kv \<in> fst ` set prev) cur) =
         length (filter (\<lambda>kv. fst kv \<in> fst ` set cur) prev)"
  using filter_keys_card [OF assms(1), of "fst ` set prev"]
        filter_keys_card [OF assms(2), of "fst ` set cur"]
  by (simp add: Int_commute)

lemma deleted_split:
  "length (concat (map (deleted_of cur) prev)) +
     length (filter (\<lambda>kv. fst kv \<in> fst ` set cur) prev) = length prev"
  by (rule two_way_split)
     (auto simp: deleted_of_def mem_keys split: prod.splits)

lemma added_ids: "set (map ae_id (concat (map (added_of prev) cur))) = fst ` set cur - fst ` set prev"
  by (auto simp: added_of_def map_of_eq_None_iff split: prod.splits if_splits) force+

lemma deleted_ids: "set (map ae_id (concat (map (deleted_of cur) prev))) = fst ` set prev - fst ` set cur"
  by (auto simp: deleted_of_def map_of_eq_None_iff split: prod.splits if_splits) force+

text \<open>
  C1.  For every current tree and every previous signature dictionary: the ids of the
  added entries are the ids of the current signatures that the previous ones lack; the
  ids of the deleted entries are the ids of the previous signatures that the current
  ones lack; and with the unchanged ids (present on both sides with equal name, size
  and modification time) the lists add up to the number of current signatures on one
  side and to the number of previous signatures on the other.
\<close>

theorem detect_changes_partition:
  assumes "is_dict (previous_signatures previous_data)"
  shows "set (map ae_id (added_files (detect_changes lib current_data previous_data))) =
           fst ` set (extract_file_signatures lib current_data) -
           fst ` set (previous_signatures previous_data) \<and>
         set (map ae_id (deleted_files (detect_changes lib current_data previous_data))) =
           fst ` set (previous_signatures previous_data) -
           fst ` set (extract_file_signatures lib current_data) \<and>
         length (added_files (detect_changes lib current_data previous_data)) +
           length (unchanged_ids (extract_file_signatures lib current_data)
                     (previous_signatures previous_data)) +
           length (modified_files (detect_changes lib current_data previous_data)) =
           length (extract_file_signatures lib current_data) \<and>
         length (deleted_files (detect_changes lib current_data previous_data)) +
           length (unchanged_ids (extract_file_signatures lib current_data)
                     (previous_signatures previous_data)) +
           length (modified_files (detect_changes lib current_data previous_data)) =
           length (previous_signatures previous_data)"
proof -
  let ?cur = "extract_file_signatures lib current_data"
  let ?prev = "previous_signatures previous_data"
  let ?ch = "detect_changes lib current_data previous_data"
  have a: "added_files ?ch = concat (map (added_of ?prev) ?cur)"
    and d: "deleted_files ?ch = concat (map (deleted_of ?cur) ?prev)"
    and m: "modified_files ?ch = concat (map (modified_of ?prev) ?cur)"
    by (simp_all add: detect_changes_def Let_def)
  have cur: "is_dict ?cur" by (rule extract_file_signatures_is_dict)
  have 1: "length (added_files ?ch) + length (unchanged_ids ?cur ?prev) +
             length (modified_files ?ch) = length ?cur"
    unfolding a m unchanged_ids_def by (rule three_way_split) (rule sides_add_up)
  have "length (unchanged_ids ?cur ?prev) + length (modified_files ?ch) =
          length (filter (\<lambda>kv. fst kv \<in> fst ` set ?cur) ?prev)"
    unfolding m unchanged_ids_def
    using common_count_cur [of ?prev ?cur] common_symmetric [OF cur assms] by simp
  then have 2: "length (deleted_files ?ch) + length (unchanged_ids ?cur ?prev) +
             length (modified_files ?ch) = length ?prev"
    unfolding d using deleted_split [of ?cur ?prev] by simp
  show ?thesis
    using 1 2 unfolding a d by (simp only: added_ids deleted_ids)
qed

text \<open>
  The scenario of a previous dictionary with the file \<open>A\<close> and a current tree with \<open>A\<close>
  unchanged and a new file \<open>B\<close> of 500 bytes.
\<close>

theorem detect_changes_partition_witness:
  "is_dict (previous_signatures ex_previous) \<and>
   map ae_id (added_files (detect_changes ex_library ex_tree ex_previous)) = [''B''] \<and>
   deleted_files (detect_changes ex_library ex_tree ex_previous) = [] \<and>
   modified_files (detect_changes ex_library ex_tree ex_previous) = [] \<and>
   unchanged_ids (extract_file_signatures ex_library ex_tree) (previous_signatures ex_previous) =
     [''A''] \<and>
   length (added_files (detect_changes ex_library ex_tree ex_previous)) +
     length (unchanged_ids (extract_file_signatures ex_library ex_tree)
               (previous_signatures ex_previous)) +
     length (modified_files (detect_changes ex_library ex_tree ex_previous)) =
     length (extract_file_signatures ex_library ex_tree)"
proof -
  have h: "is_dict (previous_signatures ex_previous)"
    by (simp add: is_dict_def previous_signatures_def ex_previous_def)
  have e: "map ae_id (added_files (detect_changes ex_library ex_tree ex_previous)) = [''B''] \<and>
      deleted_files (detect_changes ex_library ex_tree ex_previous) = [] \<and>
      modified_files (detect_changes ex_library ex_tree ex_previous) = [] \<and>
      unchanged_ids (extract_file_signatures ex_library ex_tree)
        (previous_signatures ex_previous) = [''A'']"
    by code_simp
  have t: "length (added_files (detect_changes ex_library ex_tree ex_previous)) +
     length (unchanged_ids (extract_file_signatures ex_library ex_tree)
               (previous_signatures ex_previous)) +
     length (modified_files (detect_changes ex_library ex_tree ex_previous)) =
     length (extract_file_signatures ex_library ex_tree)"
    using detect_changes_partition [OF h, of ex_library ex_tree] by blast
  show ?thesis
    using h e t by blast
qed

section \<open>Properties of the Tree Scanner\<close>

subsection \<open>Dictionaries of counts\<close>













lemma file_stats_fields:
  "fs_fileCount (file_stats item b fs) = fs_fileCount fs + 1"
  "fs_folderCount (file_stats item b fs) = fs_folderCount fs"
  "fs_totalSizeMB (file_stats item b fs) = fs_totalSizeMB fs + of_int b / (1024 * 1024)"
  "fs_fileTypes (file_stats item b fs) =
     add_count (categorize_file (item_mimeType item)) 1 (fs_fileTypes fs)"
  "fs_sizeDistribution (file_stats item b fs) =
     add_bucket (of_int b / (1024 * 1024)) (fs_sizeDistribution fs)"
  by (simp_all add: file_stats_def Let_def split: option.splits)










subsection \<open>Aggregates of the returned tree\<close>




subsection \<open>Entries without a size\<close>

lemma py_round_zero: "py_round 0 n = 0"
  by (simp add: py_round_def round_half_even_def)

lemma format_file_size_zero:
  "format_file_size (Some 0) = \<lparr>bytes = 0, kb = 0, mb = 0, gb = 0\<rparr>"
  "format_file_size None = \<lparr>bytes = 0, kb = 0, mb = 0, gb = 0\<rparr>"
  by (simp_all add: format_file_size_def py_round_zero)

text \<open>
  C10.  A listed file whose \<^verbatim>\<open>size\<close> key is absent or \<^verbatim>\<open>null\<close> has the size 0: the
  loop does not raise at this entry and goes on with the next one, the running total
  size of the folder is unchanged, the bucket \<^verbatim>\<open>small\<close> is one higher and the other
  buckets are unchanged, and the entry appended for the file has 0 for \<^verbatim>\<open>bytes\<close>,
  \<^verbatim>\<open>kb\<close>, \<^verbatim>\<open>mb\<close> and \<^verbatim>\<open>gb\<close>.
\<close>

theorem missing_size_is_zero:
  assumes "item_size item = SizeAbsent \<or> item_size item = SizeNull"
    and "item_mimeType item \<noteq> ''application/vnd.google-apps.folder''"
  shows "size_bytes_of (item_size item) = Inr 0 \<and>
         item_loop recurse cfg rem (item # items) (fs, nodes) st =
           item_loop recurse cfg rem items
             (file_stats item 0 fs, nodes @ [File (file_entry item 0)])
             (st\<lparr>totalFiles := totalFiles st + 1\<rparr>) \<and>
         fs_totalSizeMB (file_stats item 0 fs) = fs_totalSizeMB fs \<and>
         fs_sizeDistribution (file_stats item 0 fs) =
           (fs_sizeDistribution fs)\<lparr>small := small (fs_sizeDistribution fs) + 1\<rparr> \<and>
         fsize (file_entry item 0) = \<lparr>bytes = 0, kb = 0, mb = 0, gb = 0\<rparr> \<and>
         format_file_size None = \<lparr>bytes = 0, kb = 0, mb = 0, gb = 0\<rparr>"
proof (intro conjI)
  show z: "size_bytes_of (item_size item) = Inr 0"
    using assms(1) by (auto simp: size_bytes_of_def)
  show "item_loop recurse cfg rem (item # items) (fs, nodes) st =
           item_loop recurse cfg rem items
             (file_stats item 0 fs, nodes @ [File (file_entry item 0)])
             (st\<lparr>totalFiles := totalFiles st + 1\<rparr>)"
    using assms(2) z by (simp add: Let_def add_file_def)
  show "fs_totalSizeMB (file_stats item 0 fs) = fs_totalSizeMB fs"
    by (simp add: file_stats_fields)
  show "fs_sizeDistribution (file_stats item 0 fs) =
           (fs_sizeDistribution fs)\<lparr>small := small (fs_sizeDistribution fs) + 1\<rparr>"
    by (simp add: file_stats_fields add_bucket_def)
  show "fsize (file_entry item 0) = \<lparr>bytes = 0, kb = 0, mb = 0, gb = 0\<rparr>"
    by (simp add: file_entry_def format_file_size_zero)
  show "format_file_size None = \<lparr>bytes = 0, kb = 0, mb = 0, gb = 0\<rparr>"
    by (rule format_file_size_zero)
qed

theorem missing_size_is_zero_witness:
  "(item_size (file_item ''b'' SizeNull) = SizeAbsent \<or>
    item_size (file_item ''b'' SizeNull) = SizeNull) \<and>
   item_mimeType (file_item ''b'' SizeNull) \<noteq> ''application/vnd.google-apps.folder'' \<and>
   size_bytes_of (item_size (file_item ''b'' SizeNull)) = Inr 0 \<and>
   fsize (file_entry (file_item ''b'' SizeNull) 0) = \<lparr>bytes = 0, kb = 0, mb = 0, gb = 0\<rparr>"
proof -
  have a: "item_size (file_item ''b'' SizeNull) = SizeAbsent \<or>
      item_size (file_item ''b'' SizeNull) = SizeNull"
    by (simp add: file_item_def)
  have b: "item_mimeType (file_item ''b'' SizeNull) \<noteq> ''application/vnd.google-apps.folder''"
    by (simp add: file_item_def)
  show ?thesis
    using a b missing_size_is_zero [OF a b] by blast
qed

subsection \<open>Retries\<close>

lemma retry_loop_attempts:
  "apiCallsCount (snd (retry_loop cfg api_call attempts st)) \<le> apiCallsCount st + length attempts"
proof (induction attempts arbitrary: st)
  case Nil
  then show ?case by simp
next
  case (Cons attempt rest)
  let ?st = "st\<lparr>apiCallsCount := apiCallsCount st + 1\<rparr>"
  have "apiCallsCount (snd (retry_loop cfg api_call rest ?st)) \<le> apiCallsCount st + 1 + length rest"
    using Cons [of ?st] by simp
  then show ?case
    by (auto simp: Let_def split: outcome.splits exn.splits)
qed

lemma make_api_call_with_retry_attempts:
  "apiCallsCount (snd (make_api_call_with_retry cfg api_call st)) \<le>
     apiCallsCount st + nat (maxRetries cfg)"
  using retry_loop_attempts [of cfg api_call "[0..maxRetries cfg - 1]" st]
  by (simp add: make_api_call_with_retry_def)

text \<open>
  C7.  No call makes more than \<^verbatim>\<open>maxRetries\<close> attempts (the lemma above).  The last
  failure does not always propagate: when every attempt of a listing ends with the
  rate-limit status 429, the \<^verbatim>\<open>continue\<close> of that branch leaves the loop after the
  last attempt without raising, \<^verbatim>\<open>make_api_call_with_retry\<close> returns \<^verbatim>\<open>None\<close> and
  records no error, and \<^verbatim>\<open>get_folder_tree\<close> returns an empty tree.  With the status
  500 in place of 429 the same run ends with the exception.
\<close>

theorem rate_limit_exhaustion_is_silent:
  "make_api_call_with_retry ex_config (\<lambda>i. list_call ex_rate_limited i ''root'' None)
     initial_stats =
     (Inr None, \<lparr>totalFiles = 0, totalFolders = 0, apiCallsCount = 3, errors = []\<rparr>) \<and>
   get_folder_tree 1 ex_config ex_rate_limited ''root'' initial_stats =
     Some (Inr \<lparr>fileCount = 0, folderCount = 0, totalSizeMB = 0, lastUpdated = ''N/A'',
                fileTypes = [],
                sizeDistribution = \<lparr>small = 0, medium = 0, large = 0, huge = 0\<rparr>,
                children = []\<rparr>,
           \<lparr>totalFiles = 0, totalFolders = 0, apiCallsCount = 3, errors = []\<rparr>) \<and>
   get_folder_tree 1 ex_config ex_failing ''root'' initial_stats =
     Some (Inl (HttpError 500 ''backend error''),
           \<lparr>totalFiles = 0, totalFolders = 0, apiCallsCount = 3,
            errors = [''API Error: backend error'']\<rparr>)"
  by code_simp

end
